theory Spec2Isabelle
  imports Main
begin

section \<open>Data model\<close>

text \<open>
  The two tables created by \<^verbatim>\<open>init-db.js\<close>. Ids are the SERIAL primary keys; a path
  segment \<^verbatim>\<open>:id\<close> is the decimal text of such an id and is modelled by the number
  it denotes. Message texts are written without their accents.
\<close>

record user_row =
  u_id :: nat
  u_username :: string
  u_email :: string
  u_password :: string

record file_row =
  file_id :: nat
  user_id :: nat
  filename :: string
  original_name :: string
  file_path :: string
  file_size :: nat
  mime_type :: string
  is_shared :: bool
  share_token :: "string option"
  uploaded_at :: nat

text \<open>The columns selected by \<^verbatim>\<open>GET /api/files\<close>.\<close>

record file_entry =
  e_id :: nat
  e_filename :: string
  e_original_name :: string
  e_file_size :: nat
  e_mime_type :: string
  e_is_shared :: bool
  e_uploaded_at :: nat

text \<open>
  The payload of a token as the handlers read it: \<^verbatim>\<open>{ id, username }\<close> for an access
  token, \<^verbatim>\<open>{ fileId }\<close> for a share token. A property that is absent reads as
  \<^verbatim>\<open>undefined\<close>, here \<open>None\<close>.
\<close>

record claims =
  claim_id :: "nat option"
  claim_username :: "string option"
  claim_fileId :: "nat option"

text \<open>
  What an awaited store call resolves to: the object \<^verbatim>\<open>{ data, error }\<close>, where
  \<open>error\<close> carries the store's message. \<open>Inl m\<close> is a call that throws an
  exception with message \<open>m\<close> instead, which the handler's \<^verbatim>\<open>catch\<close> receives.
\<close>

record 'a reply =
  data :: "'a option"
  error :: "string option"

type_synonym 'a awaited = "string + 'a reply"

text \<open>The object multer leaves in \<^verbatim>\<open>req.file\<close>.\<close>

record upload_file =
  stored_name :: string
  originalname :: string
  path :: string
  size :: nat
  mimetype :: string

record user_json =
  j_id :: nat
  j_username :: string
  j_email :: string

datatype body =
    ErrorJson string "string option"
  | SessionJson string string user_json
  | UploadJson string nat string nat string
  | FilesJson "file_entry list option"
  | ShareJson string string
  | Download string string

record response =
  status :: nat
  body :: body

text \<open>A middleware either answers the request or calls \<^verbatim>\<open>next()\<close> with \<^verbatim>\<open>req.user\<close> set.\<close>

datatype middleware = Respond response | Next claims

section \<open>The libraries the server calls\<close>

text \<open>
  \<^verbatim>\<open>jsonwebtoken\<close>, \<^verbatim>\<open>bcryptjs\<close> and Node's \<^verbatim>\<open>path\<close> and \<^verbatim>\<open>fs\<close> are not part of the
  repository; they are parameters of the model. \<open>jwt_sign payload secret expiresIn clock\<close>
  is \<^verbatim>\<open>jwt.sign(payload, secret, { expiresIn })\<close> called at time \<open>clock\<close>;
  \<open>jwt_verify token secret clock\<close> is \<^verbatim>\<open>jwt.verify(token, secret)\<close> at time \<open>clock\<close>,
  \<open>Inl m\<close> being the error with message \<open>m\<close>.
\<close>

record platform =
  jwt_sign :: "claims \<Rightarrow> string \<Rightarrow> string \<Rightarrow> nat \<Rightarrow> string"
  jwt_verify :: "string \<Rightarrow> string \<Rightarrow> nat \<Rightarrow> string + claims"
  bcrypt_hash :: "string \<Rightarrow> string"
  bcrypt_compare :: "string \<Rightarrow> string \<Rightarrow> bool"
  extname :: "string \<Rightarrow> string"
  existsSync :: "string \<Rightarrow> bool"

text \<open>
  The Supabase client is a parameter too. The store evaluates the filters of a query on
  the table; the client turns the rows they select into what the awaited call resolves
  to. \<open>users_insert\<close> answers \<^verbatim>\<open>insert([row]).select()\<close>, \<open>users_single\<close> and
  \<open>files_single\<close> answer a query ending in \<^verbatim>\<open>.single()\<close>, \<open>files_select\<close> answers the
  plain select and \<open>files_update\<close> the update, which is not followed by a select.
\<close>

record client =
  users_insert :: "user_row list \<Rightarrow> string \<Rightarrow> string \<Rightarrow> string \<Rightarrow> user_row list awaited"
  users_single :: "user_row list \<Rightarrow> user_row awaited"
  files_insert :: "file_row list \<Rightarrow> nat option \<Rightarrow> upload_file \<Rightarrow> file_row list awaited"
  files_select :: "file_entry list \<Rightarrow> file_entry list awaited"
  files_single :: "file_row list \<Rightarrow> file_row awaited"
  files_update :: "file_row list \<Rightarrow> file_row list awaited"

section \<open>Strings\<close>

text \<open>\<^verbatim>\<open>s.split(c)\<close> for a one-character separator: a separator starts a new piece.\<close>

fun split :: "char \<Rightarrow> string \<Rightarrow> string list" where
  "split c [] = [[]]"
| "split c (x # xs) =
     (if x = c then [] # split c xs
      else (case split c xs of [] \<Rightarrow> [[x]] | w # ws \<Rightarrow> (x # w) # ws))"

text \<open>\<^verbatim>\<open>xs[i]\<close>: \<^verbatim>\<open>undefined\<close> outside the array.\<close>

definition at_index :: "'a list \<Rightarrow> nat \<Rightarrow> 'a option" where
  "at_index xs i = (if i < length xs then Some (xs ! i) else None)"

fun startsWith :: "string \<Rightarrow> string \<Rightarrow> bool" where
  "startsWith s [] = True"
| "startsWith [] (c # w) = False"
| "startsWith (x # s) (c # w) = (x = c \<and> startsWith s w)"

text \<open>\<^verbatim>\<open>s.includes(w)\<close>: \<open>w\<close> occurs in \<open>s\<close> as a contiguous piece.\<close>

fun str_includes :: "string \<Rightarrow> string \<Rightarrow> bool" where
  "str_includes [] w = (w = [])"
| "str_includes (x # s) w = (startsWith (x # s) w \<or> str_includes s w)"

text \<open>\<^verbatim>\<open>toLowerCase\<close> on the ASCII letters.\<close>

definition lower_char :: "char \<Rightarrow> char" where
  "lower_char c =
     (let n = (of_char c :: nat) in if 65 \<le> n \<and> n \<le> 90 then char_of (n + 32) else c)"

definition toLowerCase :: "string \<Rightarrow> string" where
  "toLowerCase s = map lower_char s"

text \<open>A JavaScript value is falsy when it is \<^verbatim>\<open>undefined\<close> or the empty string.\<close>

definition truthy :: "string option \<Rightarrow> string option" where
  "truthy v = (case v of None \<Rightarrow> None | Some s \<Rightarrow> if s = [] then None else Some s)"

section \<open>Upload filter\<close>

text \<open>
  The regular expression \<^verbatim>\<open>/jpeg|jpg|png|gif|pdf|txt|doc|docx|xls|xlsx|zip|rar/\<close> has no
  anchors: \<^verbatim>\<open>test\<close> succeeds when one of the alternatives occurs anywhere in the string.
\<close>

definition allowedTypes :: "string \<Rightarrow> bool" where
  "allowedTypes s =
     list_ex (str_includes s)
       [''jpeg'', ''jpg'', ''png'', ''gif'', ''pdf'', ''txt'', ''doc'', ''docx'', ''xls'',
        ''xlsx'', ''zip'', ''rar'']"

definition fileFilter :: "platform \<Rightarrow> upload_file \<Rightarrow> string + bool" where
  "fileFilter P file =
     (let ext_ok = allowedTypes (toLowerCase (extname P (originalname file)));
          mime_ok = allowedTypes (mimetype file)
      in if mime_ok \<and> ext_ok then Inr True else Inl ''Tipo de archivo no permitido'')"

text \<open>
  The \<^verbatim>\<open>destination\<close> of multer's disk storage names the directory of the upload by
  \<^verbatim>\<open>req.user.id.toString()\<close>, which throws a TypeError when the id is \<^verbatim>\<open>undefined\<close>.
  The result is the id that names the directory under \<^verbatim>\<open>uploads\<close>.
\<close>

definition destination :: "claims \<Rightarrow> string + nat" where
  "destination user =
     (case claim_id user of
        None \<Rightarrow> Inl ''Cannot read properties of undefined (reading toString)''
      | Some uid \<Rightarrow> Inr uid)"

section \<open>Authentication middleware\<close>

text \<open>\<^verbatim>\<open>authHeader && authHeader.split(' ')[1]\<close>: an empty header is falsy and is itself the result.\<close>

definition bearer :: "string option \<Rightarrow> string option" where
  "bearer authHeader =
     (case authHeader of None \<Rightarrow> None
      | Some h \<Rightarrow> if h = [] then Some [] else at_index (split (CHR '' '') h) 1)"

definition authenticateToken :: "platform \<Rightarrow> string \<Rightarrow> nat \<Rightarrow> string option \<Rightarrow> middleware" where
  "authenticateToken P secret clock authHeader =
     (case bearer authHeader of
        None \<Rightarrow> Respond \<lparr>status = 401, body = ErrorJson ''Token de acceso requerido'' None\<rparr>
      | Some token \<Rightarrow>
          (case jwt_verify P token secret clock of
             Inl err \<Rightarrow> Respond \<lparr>status = 403, body = ErrorJson ''Token invalido'' None\<rparr>
           | Inr user \<Rightarrow> Next user))"

section \<open>Queries\<close>

text \<open>
  The client writes the operand of \<^verbatim>\<open>.eq(column, operand)\<close> into the request as text.
  An operand that is \<^verbatim>\<open>undefined\<close> reaches the store as the text "undefined", which
  is no integer: the store rejects the request with a type error, selects nothing and
  changes nothing. A query is therefore either rejected, \<open>Inl\<close> with the message of
  the store (written here without its quotation marks), or it selects rows.
\<close>

definition type_error :: string where
  "type_error = ''invalid input syntax for type integer: undefined''"

definition entry :: "file_row \<Rightarrow> file_entry" where
  "entry r =
     \<lparr>e_id = file_id r, e_filename = filename r, e_original_name = original_name r,
      e_file_size = file_size r, e_mime_type = mime_type r, e_is_shared = is_shared r,
      e_uploaded_at = uploaded_at r\<rparr>"

text \<open>\<^verbatim>\<open>.eq('user_id', req.user.id)\<close>\<close>

definition list_query :: "claims \<Rightarrow> file_row list \<Rightarrow> string + file_row list" where
  "list_query user files =
     (case claim_id user of
        None \<Rightarrow> Inl type_error
      | Some uid \<Rightarrow> Inr (filter (\<lambda>r. user_id r = uid) files))"

text \<open>\<^verbatim>\<open>.eq('id', fileId).eq('user_id', req.user.id)\<close>, of the download and of the update.\<close>

definition owned_file :: "nat \<Rightarrow> nat \<Rightarrow> file_row \<Rightarrow> bool" where
  "owned_file uid fileId r = (file_id r = fileId \<and> user_id r = uid)"

definition download_query :: "claims \<Rightarrow> nat \<Rightarrow> file_row list \<Rightarrow> string + file_row list" where
  "download_query user fileId files =
     (case claim_id user of
        None \<Rightarrow> Inl type_error
      | Some uid \<Rightarrow> Inr (filter (owned_file uid fileId) files))"

text \<open>
  \<^verbatim>\<open>.update({ is_shared: true, share_token: shareToken })\<close> on the rows the filters
  select: the table after the update, and the query as a whole, which yields the rows
  it has changed and the new table.
\<close>

definition share_update :: "nat \<Rightarrow> nat \<Rightarrow> string \<Rightarrow> file_row list \<Rightarrow> file_row list" where
  "share_update uid fileId shareToken files =
     map (\<lambda>r. if owned_file uid fileId r
              then r\<lparr>is_shared := True, share_token := Some shareToken\<rparr> else r) files"

definition update_query ::
  "claims \<Rightarrow> nat \<Rightarrow> string \<Rightarrow> file_row list \<Rightarrow> string + file_row list \<times> file_row list" where
  "update_query user fileId shareToken files =
     (case claim_id user of
        None \<Rightarrow> Inl type_error
      | Some uid \<Rightarrow>
          Inr (filter (owned_file uid fileId) (share_update uid fileId shareToken files),
               share_update uid fileId shareToken files))"

text \<open>\<^verbatim>\<open>.eq('id', decoded.fileId).eq('is_shared', true).eq('share_token', token)\<close>\<close>

definition shared_query :: "claims \<Rightarrow> string \<Rightarrow> file_row list \<Rightarrow> string + file_row list" where
  "shared_query decoded token files =
     (case claim_fileId decoded of
        None \<Rightarrow> Inl type_error
      | Some fid \<Rightarrow>
          Inr (filter (\<lambda>r. file_id r = fid \<and> is_shared r = True
                           \<and> share_token r = Some token) files))"

text \<open>
  What the awaited call resolves to: the error of the store when it has rejected the
  request, and otherwise what the client makes of the outcome of the query.
\<close>

definition resolved :: "string + 'r \<Rightarrow> ('r \<Rightarrow> 'a awaited) \<Rightarrow> 'a awaited" where
  "resolved query answer =
     (case query of
        Inl message \<Rightarrow> Inr \<lparr>data = None, error = Some message\<rparr>
      | Inr outcome \<Rightarrow> answer outcome)"

text \<open>The reply each of the four handlers awaits.\<close>

definition list_reply :: "client \<Rightarrow> claims \<Rightarrow> file_row list \<Rightarrow> file_entry list awaited" where
  "list_reply C user files =
     resolved (list_query user files) (\<lambda>rows. files_select C (map entry rows))"

definition download_reply :: "client \<Rightarrow> claims \<Rightarrow> nat \<Rightarrow> file_row list \<Rightarrow> file_row awaited" where
  "download_reply C user fileId files =
     resolved (download_query user fileId files) (files_single C)"

definition share_reply ::
  "client \<Rightarrow> claims \<Rightarrow> nat \<Rightarrow> string \<Rightarrow> file_row list \<Rightarrow> file_row list awaited" where
  "share_reply C user fileId shareToken files =
     resolved (update_query user fileId shareToken files)
       (\<lambda>(changed, files'). files_update C changed)"

definition shared_reply :: "client \<Rightarrow> claims \<Rightarrow> string \<Rightarrow> file_row list \<Rightarrow> file_row awaited" where
  "shared_reply C decoded token files =
     resolved (shared_query decoded token files) (files_single C)"

section \<open>Handlers\<close>

definition internal_error :: response where
  "internal_error = \<lparr>status = 500, body = ErrorJson ''Error interno del servidor'' None\<rparr>"


text \<open>\<^verbatim>\<open>POST /api/login\<close>\<close>

definition login ::
  "platform \<Rightarrow> client \<Rightarrow> string \<Rightarrow> nat \<Rightarrow> user_row list \<Rightarrow>
   string option \<Rightarrow> string option \<Rightarrow> response" where
  "login P C secret clock users username password =
     (case (truthy username, truthy password) of
        (Some u, Some p) \<Rightarrow>
          (case users_single C (filter (\<lambda>r. u_username r = u) users) of
             Inl thrown \<Rightarrow> internal_error
           | Inr r \<Rightarrow>
               (case error r of
                  Some message \<Rightarrow>
                    \<lparr>status = 500, body = ErrorJson ''Error interno del servidor'' (Some message)\<rparr>
                | None \<Rightarrow>
                    (case data r of
                       None \<Rightarrow> \<lparr>status = 401, body = ErrorJson ''Credenciales invalidas'' None\<rparr>
                     | Some d \<Rightarrow>
                         if \<not> bcrypt_compare P p (u_password d)
                         then \<lparr>status = 401, body = ErrorJson ''Credenciales invalidas'' None\<rparr>
                         else \<lparr>status = 200,
                               body = SessionJson ''Login exitoso''
                                 (jwt_sign P \<lparr>claim_id = Some (u_id d),
                                              claim_username = Some (u_username d),
                                              claim_fileId = None\<rparr> secret ''24h'' clock)
                                 \<lparr>j_id = u_id d, j_username = u_username d,
                                  j_email = u_email d\<rparr>\<rparr>)))
      | _ \<Rightarrow> \<lparr>status = 400, body = ErrorJson ''Usuario y contrasena requeridos'' None\<rparr>)"


text \<open>\<^verbatim>\<open>GET /api/files\<close>\<close>

definition list_files :: "client \<Rightarrow> claims \<Rightarrow> file_row list \<Rightarrow> response" where
  "list_files C user files =
     (case list_reply C user files of
        Inl thrown \<Rightarrow> internal_error
      | Inr r \<Rightarrow>
          (case error r of
             Some message \<Rightarrow>
               \<lparr>status = 500, body = ErrorJson ''Error al obtener archivos'' (Some message)\<rparr>
           | None \<Rightarrow> \<lparr>status = 200, body = FilesJson (data r)\<rparr>))"

text \<open>\<^verbatim>\<open>GET /api/files/:id/download\<close>\<close>

definition download :: "platform \<Rightarrow> client \<Rightarrow> claims \<Rightarrow> nat \<Rightarrow> file_row list \<Rightarrow> response" where
  "download P C user fileId files =
     (case download_reply C user fileId files of
        Inl thrown \<Rightarrow> internal_error
      | Inr r \<Rightarrow>
          (case error r of
             Some message \<Rightarrow>
               \<lparr>status = 500, body = ErrorJson ''Error al buscar archivo'' (Some message)\<rparr>
           | None \<Rightarrow>
               (case data r of
                  None \<Rightarrow> \<lparr>status = 404, body = ErrorJson ''Archivo no encontrado'' None\<rparr>
                | Some file \<Rightarrow>
                    if \<not> existsSync P (file_path file)
                    then \<lparr>status = 404, body = ErrorJson ''Archivo fisico no encontrado'' None\<rparr>
                    else \<lparr>status = 200, body = Download (file_path file) (original_name file)\<rparr>)))"

text \<open>
  \<^verbatim>\<open>POST /api/files/:id/share\<close>: the answer and the table after the request. The store
  carries out the update unless it rejects the request, reports an error or the call
  throws; the client is given the rows the update has changed.
\<close>

definition shareToken_of :: "platform \<Rightarrow> string \<Rightarrow> nat \<Rightarrow> nat \<Rightarrow> string" where
  "shareToken_of P secret clock fileId =
     jwt_sign P \<lparr>claim_id = None, claim_username = None, claim_fileId = Some fileId\<rparr>
       secret ''7d'' clock"

definition share_answer :: "string \<Rightarrow> string \<Rightarrow> string \<Rightarrow> file_row list awaited \<Rightarrow> response" where
  "share_answer protocol host shareToken reply =
     (case reply of
        Inl thrown \<Rightarrow> internal_error
      | Inr r \<Rightarrow>
          (case error r of
             Some message \<Rightarrow>
               \<lparr>status = 500, body = ErrorJson ''Error al compartir archivo'' (Some message)\<rparr>
           | None \<Rightarrow>
               (case data r of
                  None \<Rightarrow> \<lparr>status = 404, body = ErrorJson ''Archivo no encontrado'' None\<rparr>
                | Some rows \<Rightarrow>
                    if length rows = 0
                    then \<lparr>status = 404, body = ErrorJson ''Archivo no encontrado'' None\<rparr>
                    else \<lparr>status = 200,
                          body = ShareJson ''Archivo compartido exitosamente''
                            (protocol @ ''://'' @ host @ ''/api/shared/'' @ shareToken)\<rparr>)))"

definition carried_out :: "'a awaited \<Rightarrow> bool" where
  "carried_out reply = (case reply of Inl thrown \<Rightarrow> False | Inr r \<Rightarrow> error r = None)"

definition share ::
  "platform \<Rightarrow> client \<Rightarrow> string \<Rightarrow> nat \<Rightarrow> string \<Rightarrow> string \<Rightarrow> claims \<Rightarrow> nat \<Rightarrow>
   file_row list \<Rightarrow> response \<times> file_row list" where
  "share P C secret clock protocol host user fileId files =
     (let shareToken = shareToken_of P secret clock fileId;
          reply = share_reply C user fileId shareToken files
      in (share_answer protocol host shareToken reply,
          case update_query user fileId shareToken files of
            Inl message \<Rightarrow> files
          | Inr (changed, files') \<Rightarrow> if carried_out reply then files' else files))"

text \<open>\<^verbatim>\<open>GET /api/shared/:token\<close>: no middleware; every exception reaches the one \<^verbatim>\<open>catch\<close>.\<close>

definition shared :: "platform \<Rightarrow> client \<Rightarrow> string \<Rightarrow> nat \<Rightarrow> string \<Rightarrow> file_row list \<Rightarrow> response" where
  "shared P C secret clock token files =
     (case jwt_verify P token secret clock of
        Inl message \<Rightarrow>
          \<lparr>status = 500, body = ErrorJson ''Token invalido o error interno'' (Some message)\<rparr>
      | Inr decoded \<Rightarrow>
          (case shared_reply C decoded token files of
             Inl message \<Rightarrow>
               \<lparr>status = 500, body = ErrorJson ''Token invalido o error interno'' (Some message)\<rparr>
           | Inr r \<Rightarrow>
               (case error r of
                  Some message \<Rightarrow>
                    \<lparr>status = 500,
                     body = ErrorJson ''Error al obtener archivo compartido'' (Some message)\<rparr>
                | None \<Rightarrow>
                    (case data r of
                       None \<Rightarrow>
                         \<lparr>status = 404, body = ErrorJson ''Archivo no encontrado o no compartido'' None\<rparr>
                     | Some file \<Rightarrow>
                         if \<not> existsSync P (file_path file)
                         then \<lparr>status = 404, body = ErrorJson ''Archivo fisico no encontrado'' None\<rparr>
                         else \<lparr>status = 200,
                               body = Download (file_path file) (original_name file)\<rparr>))))"

section \<open>Routes\<close>

text \<open>
  The routes \<^verbatim>\<open>server.js\<close> registers, in its order, each path as its segments. A
  segment that begins with a colon is a parameter and matches any segment that is not
  empty. A request that no route matches is not handled by the application.
\<close>

datatype http_method = GET | POST | PUT | PATCH | DELETE

definition routes :: "(http_method \<times> string list) list" where
  "routes =
     [(POST, [''api'', ''register'']),
      (POST, [''api'', ''login'']),
      (POST, [''api'', ''upload'']),
      (GET, [''api'', ''files'']),
      (GET, [''api'', ''files'', '':id'', ''download'']),
      (POST, [''api'', ''files'', '':id'', ''share'']),
      (GET, [''api'', ''shared'', '':token'']),
      (GET, [''api'', ''health''])]"

definition seg_matches :: "string \<Rightarrow> string \<Rightarrow> bool" where
  "seg_matches pat seg =
     (case pat of [] \<Rightarrow> seg = []
      | c # name \<Rightarrow> if c = CHR '':'' then seg \<noteq> [] else seg = pat)"

definition route :: "http_method \<Rightarrow> string list \<Rightarrow> (http_method \<times> string list) option" where
  "route m segs = find (\<lambda>(m', pat). m' = m \<and> list_all2 seg_matches pat segs) routes"

text \<open>\<^verbatim>\<open>deleteFile\<close> of \<^verbatim>\<open>cloudinary.js\<close>: the failure of \<^verbatim>\<open>destroy\<close> is logged and thrown again.\<close>

definition deleteFile :: "(string \<Rightarrow> string + 'r) \<Rightarrow> string \<Rightarrow> string + 'r" where
  "deleteFile destroy publicId =
     (case destroy publicId of Inr result \<Rightarrow> Inr result | Inl err \<Rightarrow> Inl err)"

section \<open>An instance of the libraries\<close>

text \<open>
  For evaluating the handlers on concrete requests. A token is the text of the secret,
  the three claims and the day of expiry, separated by dots; the clock counts days;
  \<^verbatim>\<open>sign\<close> is a function of the payload, the secret, the lifetime and the clock, as
  the HMAC signature of \<^verbatim>\<open>jsonwebtoken\<close> is.
\<close>

definition enc :: "nat option \<Rightarrow> string" where
  "enc v = (case v of None \<Rightarrow> [] | Some n \<Rightarrow> CHR ''n'' # replicate n (CHR ''i''))"

definition dec :: "string \<Rightarrow> nat option" where
  "dec s = (case s of [] \<Rightarrow> None | c # t \<Rightarrow> Some (length t))"

definition days :: "string \<Rightarrow> nat" where
  "days expiresIn = (if expiresIn = ''7d'' then 7 else if expiresIn = ''24h'' then 1 else 0)"

definition sample_sign :: "claims \<Rightarrow> string \<Rightarrow> string \<Rightarrow> nat \<Rightarrow> string" where
  "sample_sign payload secret expiresIn clock =
     secret @ ''.'' @ enc (claim_id payload) @ ''.''
       @ (case claim_username payload of None \<Rightarrow> [] | Some u \<Rightarrow> u) @ ''.''
       @ enc (claim_fileId payload) @ ''.'' @ replicate (clock + days expiresIn) (CHR ''i'')"

definition sample_verify :: "string \<Rightarrow> string \<Rightarrow> nat \<Rightarrow> string + claims" where
  "sample_verify token secret clock =
     (case split (CHR ''.'') token of
        [k, i, u, f, e] \<Rightarrow>
          if k \<noteq> secret then Inl ''invalid signature''
          else if length e \<le> clock then Inl ''jwt expired''
          else Inr \<lparr>claim_id = dec i, claim_username = (if u = [] then None else Some u),
                    claim_fileId = dec f\<rparr>
      | _ \<Rightarrow> Inl ''jwt malformed'')"

text \<open>
  The extension of a file name that has no directory part: the text from the last dot
  on; empty when the name has no dot, when its only dot comes first, and for the name
  of two dots.
\<close>

definition sample_extname :: "string \<Rightarrow> string" where
  "sample_extname name =
     (let tail = rev (takeWhile (\<lambda>c. c \<noteq> CHR ''.'') (rev name))
      in if CHR ''.'' \<notin> set name \<or> length tail + 1 = length name \<or> name = ''..'' then []
         else CHR ''.'' # tail)"

definition sample_platform :: "string list \<Rightarrow> platform" where
  "sample_platform disk =
     \<lparr>jwt_sign = sample_sign, jwt_verify = sample_verify,
      bcrypt_hash = (\<lambda>p. ''$2a$10$'' @ p),
      bcrypt_compare = (\<lambda>p h. h = ''$2a$10$'' @ p),
      extname = sample_extname,
      existsSync = (\<lambda>p. p \<in> set disk)\<rparr>"

text \<open>
  The client as its documentation describes it. \<^verbatim>\<open>.single()\<close> resolves to the row when
  the filters select exactly one, and to an error otherwise, also when they select none.
  An insert followed by \<^verbatim>\<open>.select()\<close> returns the new row. An update that is not
  followed by \<^verbatim>\<open>.select()\<close> returns no data (version 2 of the client).
\<close>

definition single :: "'a list \<Rightarrow> 'a awaited" where
  "single rows =
     (case rows of
        [r] \<Rightarrow> Inr \<lparr>data = Some r, error = None\<rparr>
      | _ \<Rightarrow> Inr \<lparr>data = None,
                  error = Some ''JSON object requested, multiple (or no) rows returned''\<rparr>)"

definition supabase :: client where
  "supabase =
     \<lparr>users_insert = (\<lambda>users u h e.
        if list_ex (\<lambda>r. u_username r = u \<or> u_email r = e) users
        then Inr \<lparr>data = None,
                  error = Some ''duplicate key value violates unique constraint''\<rparr>
        else Inr \<lparr>data = Some [\<lparr>u_id = Suc (length users), u_username = u, u_email = e,
                                 u_password = h\<rparr>], error = None\<rparr>),
      users_single = single,
      files_insert = (\<lambda>files owner f.
        case owner of
          None \<Rightarrow> Inr \<lparr>data = None,
                         error = Some ''null value in column user_id violates not-null constraint''\<rparr>
        | Some uid \<Rightarrow>
            Inr \<lparr>data = Some [\<lparr>file_id = Suc (length files), user_id = uid,
                               filename = stored_name f, original_name = originalname f,
                               file_path = path f, file_size = size f, mime_type = mimetype f,
                               is_shared = False, share_token = None, uploaded_at = 0\<rparr>],
                 error = None\<rparr>),
      files_select = (\<lambda>rows. Inr \<lparr>data = Some rows, error = None\<rparr>),
      files_single = single,
      files_update = (\<lambda>rows. Inr \<lparr>data = None, error = None\<rparr>)\<rparr>"

text \<open>
  The same client with an update that returns the rows it has changed, as version 1 of
  the client does by default.
\<close>

definition supabase_returning :: client where
  "supabase_returning =
     supabase\<lparr>files_update := (\<lambda>rows. Inr \<lparr>data = Some rows, error = None\<rparr>)\<rparr>"


definition alice :: user_row where
  "alice = \<lparr>u_id = 1, u_username = ''alice'', u_email = ''a@x.com'',
            u_password = ''$2a$10$pw123456''\<rparr>"

definition alice_claims :: claims where
  "alice_claims = \<lparr>claim_id = Some 1, claim_username = Some ''alice'', claim_fileId = None\<rparr>"

definition bob_claims :: claims where
  "bob_claims = \<lparr>claim_id = Some 2, claim_username = Some ''bob'', claim_fileId = None\<rparr>"

definition notes_txt :: file_row where
  "notes_txt = \<lparr>file_id = 7, user_id = 1, filename = ''1-notes.txt'', original_name = ''notes.txt'',
            file_path = ''uploads/1/1-notes.txt'', file_size = 1024, mime_type = ''text/plain'',
            is_shared = False, share_token = None, uploaded_at = 0\<rparr>"


section \<open>Notions used to state the properties\<close>

text \<open>The rows of the table that belong to the caller, and the rows that do not.\<close>

definition own_rows :: "claims \<Rightarrow> file_row list \<Rightarrow> file_row list" where
  "own_rows user files = filter (\<lambda>r. claim_id user = Some (user_id r)) files"

definition other_rows :: "claims \<Rightarrow> file_row list \<Rightarrow> file_row list" where
  "other_rows user files = filter (\<lambda>r. claim_id user \<noteq> Some (user_id r)) files"

text \<open>The claims of a share token and the claims of an access token.\<close>

definition share_claims :: "nat \<Rightarrow> claims" where
  "share_claims fileId = \<lparr>claim_id = None, claim_username = None, claim_fileId = Some fileId\<rparr>"

definition access_claims :: "nat \<Rightarrow> string \<Rightarrow> claims" where
  "access_claims uid name =
     \<lparr>claim_id = Some uid, claim_username = Some name, claim_fileId = None\<rparr>"

text \<open>
  A client that hands back only rows the query has selected: the \<open>data\<close> of a query
  ending in \<^verbatim>\<open>.single()\<close> is one of the rows the filters select.
\<close>

definition returns_selected :: "client \<Rightarrow> bool" where
  "returns_selected C =
     (\<forall>rows r d. files_single C rows = Inr r \<and> data r = Some d \<longrightarrow> d \<in> set rows)"

section \<open>Ownership scoping\<close>

lemma owned_file_updated:
  "owned_file uid fileId (r\<lparr>is_shared := b, share_token := t\<rparr>) = owned_file uid fileId r"
  by (simp add: owned_file_def)

lemma changed_rows:
  "filter (owned_file uid fileId) (share_update uid fileId tok files) =
   map (\<lambda>r. r\<lparr>is_shared := True, share_token := Some tok\<rparr>) (filter (owned_file uid fileId) files)"
  by (induction files) (simp_all add: share_update_def owned_file_updated)

lemma own_rows_defined:
  "claim_id user = Some uid \<Longrightarrow> own_rows user files = filter (\<lambda>r. user_id r = uid) files"
  by (induction files) (auto simp: own_rows_def)

lemma own_rows_idem: "own_rows user (own_rows user files) = own_rows user files"
  by (simp add: own_rows_def)

lemma owned_rows_of_own_rows:
  "claim_id user = Some uid \<Longrightarrow>
   filter (owned_file uid fileId) (own_rows user files) = filter (owned_file uid fileId) files"
  by (induction files) (auto simp: own_rows_def owned_file_def)

lemma owned_rows_by_id:
  "claim_id user = Some uid \<Longrightarrow>
   filter (owned_file uid fileId) files = filter (\<lambda>r. file_id r = fileId) (own_rows user files)"
  by (induction files) (auto simp: own_rows_def owned_file_def)

lemma other_rows_Cons:
  "other_rows user (x # xs) =
   (if claim_id user \<noteq> Some (user_id x) then x # other_rows user xs else other_rows user xs)"
  by (simp add: other_rows_def)

lemma share_update_Cons:
  "share_update uid fileId tok (r # files) =
   (if owned_file uid fileId r then r\<lparr>is_shared := True, share_token := Some tok\<rparr> else r)
   # share_update uid fileId tok files"
  by (simp add: share_update_def)

lemma other_rows_share_update:
  assumes "claim_id user = Some uid"
  shows "other_rows user (share_update uid fileId tok files) = other_rows user files"
proof (induction files)
  case Nil
  show ?case by (simp add: other_rows_def share_update_def)
next
  case (Cons r files)
  show ?case
  proof (cases "owned_file uid fileId r")
    case True
    with assms have "claim_id user = Some (user_id r)"
      by (simp add: owned_file_def)
    with True show ?thesis
      by (simp add: share_update_Cons other_rows_Cons Cons.IH)
  next
    case False
    then show ?thesis
      by (simp add: share_update_Cons other_rows_Cons Cons.IH)
  qed
qed

lemma list_query_own_rows:
  "list_query user files =
   (case claim_id user of None \<Rightarrow> Inl type_error | Some uid \<Rightarrow> Inr (own_rows user files))"
  by (simp add: list_query_def own_rows_defined split: option.splits)

lemma download_query_by_id:
  "download_query user fileId files =
   (case claim_id user of
      None \<Rightarrow> Inl type_error
    | Some uid \<Rightarrow> Inr (filter (\<lambda>r. file_id r = fileId) (own_rows user files)))"
  by (simp add: download_query_def owned_rows_by_id split: option.splits)

lemma list_query_of_own_rows: "list_query user (own_rows user files) = list_query user files"
  by (simp add: list_query_own_rows own_rows_idem split: option.splits)

lemma download_query_of_own_rows:
  "download_query user fileId (own_rows user files) = download_query user fileId files"
  by (simp add: download_query_by_id own_rows_idem split: option.splits)

lemma changed_rows_of_own_rows:
  "claim_id user = Some uid \<Longrightarrow>
   filter (owned_file uid fileId) (share_update uid fileId tok (own_rows user files)) =
   filter (owned_file uid fileId) (share_update uid fileId tok files)"
  by (simp add: changed_rows owned_rows_of_own_rows)

text \<open>
  C1. List, Download and Share filter on the caller's user id inside the query: the rows
  List selects are exactly the caller's rows, the rows Download and Share select are the
  caller's rows with the requested id, each of the three answers is the answer the
  operation gives on the table cut down to the caller's rows, and the update of Share
  leaves the rows of every other owner as they were. A request whose user id is
  undefined is rejected by the store and selects and changes nothing.
\<close>

theorem owner_scoped_operations:
  "list_query user files =
     (case claim_id user of None \<Rightarrow> Inl type_error | Some uid \<Rightarrow> Inr (own_rows user files))
   \<and> download_query user fileId files =
     (case claim_id user of
        None \<Rightarrow> Inl type_error
      | Some uid \<Rightarrow> Inr (filter (\<lambda>r. file_id r = fileId) (own_rows user files)))
   \<and> list_files C user files = list_files C user (own_rows user files)
   \<and> download P C user fileId files = download P C user fileId (own_rows user files)
   \<and> fst (share P C secret clock protocol host user fileId files) =
       fst (share P C secret clock protocol host user fileId (own_rows user files))
   \<and> other_rows user (snd (share P C secret clock protocol host user fileId files)) =
       other_rows user files"
proof -
  have l: "list_files C user files = list_files C user (own_rows user files)"
    by (simp add: list_files_def list_reply_def list_query_of_own_rows)
  have d: "download P C user fileId files = download P C user fileId (own_rows user files)"
    by (simp add: download_def download_reply_def download_query_of_own_rows)
  have s1: "fst (share P C secret clock protocol host user fileId files) =
            fst (share P C secret clock protocol host user fileId (own_rows user files))"
  proof (cases "claim_id user")
    case None
    then show ?thesis
      by (simp add: share_def share_reply_def Let_def update_query_def)
  next
    case (Some uid)
    then show ?thesis
      by (simp add: share_def share_reply_def Let_def update_query_def resolved_def changed_rows_of_own_rows)
  qed
  have s2: "other_rows user (snd (share P C secret clock protocol host user fileId files)) =
            other_rows user files"
  proof (cases "claim_id user")
    case None
    then show ?thesis
      by (simp add: share_def share_reply_def Let_def update_query_def)
  next
    case (Some uid)
    then show ?thesis
      by (simp add: share_def share_reply_def Let_def update_query_def other_rows_share_update)
  qed
  show ?thesis
    by (intro conjI) (rule list_query_own_rows download_query_by_id l d s1 s2)+
qed

section \<open>Sharing a file\<close>

lemma same_id_same_row:
  assumes "distinct (map file_id files)" and "F \<in> set files" and "r \<in> set files"
    and "file_id r = file_id F"
  shows "r = F"
proof -
  from assms(1) have "inj_on file_id (set files)"
    by (simp add: distinct_map)
  with assms(2-4) show ?thesis
    by (simp add: inj_on_def)
qed

lemma owned_file_iff:
  assumes "distinct (map file_id files)" and "F \<in> set files" and "r \<in> set files"
  shows "owned_file (user_id F) (file_id F) r \<longleftrightarrow> file_id r = file_id F"
proof
  assume "owned_file (user_id F) (file_id F) r"
  then show "file_id r = file_id F"
    by (simp add: owned_file_def)
next
  assume eq: "file_id r = file_id F"
  with assms have "r = F"
    by (simp add: same_id_same_row)
  then show "owned_file (user_id F) (file_id F) r"
    by (simp add: owned_file_def)
qed

lemma filter_one:
  assumes "distinct (map f xs)" and "x \<in> set xs"
  shows "filter (\<lambda>y. f y = f x) xs = [x]"
  using assms
proof (induction xs)
  case Nil
  then show ?case by simp
next
  case (Cons y ys)
  show ?case
  proof (cases "y = x")
    case True
    from Cons.prems(1) have n: "f y \<notin> f ` set ys" by simp
    have "\<forall>z\<in>set ys. f z \<noteq> f y"
    proof
      fix z
      assume "z \<in> set ys"
      then have "f z \<in> f ` set ys" by (rule imageI)
      with n show "f z \<noteq> f y" by metis
    qed
    then have "filter (\<lambda>z. f z = f y) ys = []"
      by (simp add: filter_empty_conv)
    with True show ?thesis by simp
  next
    case False
    with Cons.prems have xin: "x \<in> set ys" and d: "distinct (map f ys)" by auto
    from Cons.prems(1) xin have "f y \<noteq> f x" by force
    with Cons.IH [OF d xin] show ?thesis by simp
  qed
qed

lemma owned_rows_owner:
  assumes "distinct (map file_id files)" and "F \<in> set files"
  shows "filter (owned_file (user_id F) (file_id F)) files = [F]"
proof -
  have "filter (owned_file (user_id F) (file_id F)) files =
        filter (\<lambda>r. file_id r = file_id F) files"
    by (rule filter_cong) (simp_all add: owned_file_iff [OF assms])
  with filter_one [OF assms] show ?thesis
    by simp
qed

lemma download_query_owner:
  assumes "distinct (map file_id files)" and "F \<in> set files"
    and "claim_id user = Some (user_id F)"
  shows "download_query user (file_id F) files = Inr [F]"
  by (simp add: download_query_def assms(3) owned_rows_owner [OF assms(1,2)])

lemma share_update_owner:
  assumes "distinct (map file_id files)" and "F \<in> set files"
  shows "share_update (user_id F) (file_id F) tok files =
         map (\<lambda>r. if file_id r = file_id F
                   then F\<lparr>is_shared := True, share_token := Some tok\<rparr> else r) files"
proof -
  have "\<And>r. r \<in> set files \<Longrightarrow>
          (if owned_file (user_id F) (file_id F) r
           then r\<lparr>is_shared := True, share_token := Some tok\<rparr> else r) =
          (if file_id r = file_id F
           then F\<lparr>is_shared := True, share_token := Some tok\<rparr> else r)"
    using same_id_same_row [OF assms] owned_file_iff [OF assms] by auto
  then show ?thesis
    unfolding share_update_def by (rule map_cong [OF refl])
qed

lemma update_query_owner:
  assumes "distinct (map file_id files)" and "F \<in> set files"
    and "claim_id user = Some (user_id F)"
  shows "update_query user (file_id F) tok files =
         Inr ([F\<lparr>is_shared := True, share_token := Some tok\<rparr>],
              share_update (user_id F) (file_id F) tok files)"
  by (simp add: update_query_def assms(3) changed_rows owned_rows_owner [OF assms(1,2)])

text \<open>
  What the handler does for the owner when the client returns the rows the update has
  changed: the answer is 200 with the URL made of the request's protocol and host, the
  path /api/shared/ and the token just signed for \<open>{ fileId }\<close> with expiresIn 7d; the
  one update has set is_shared and stored that token on the row of the file, in place
  of whatever token it held, and has changed no other row.
\<close>

theorem share_by_owner:
  assumes "F \<in> set files" and "distinct (map file_id files)"
    and "claim_id user = Some (user_id F)"
    and "tok = shareToken_of P secret clock (file_id F)"
    and "files_update C [F\<lparr>is_shared := True, share_token := Some tok\<rparr>] =
           Inr \<lparr>data = Some rows, error = None\<rparr>"
    and "rows \<noteq> []"
  shows "share P C secret clock protocol host user (file_id F) files =
           (\<lparr>status = 200,
             body = ShareJson ''Archivo compartido exitosamente''
                      (protocol @ ''://'' @ host @ ''/api/shared/'' @ tok)\<rparr>,
            map (\<lambda>r. if file_id r = file_id F
                      then F\<lparr>is_shared := True, share_token := Some tok\<rparr> else r) files)
         \<and> tok = jwt_sign P \<lparr>claim_id = None, claim_username = None,
                              claim_fileId = Some (file_id F)\<rparr> secret ''7d'' clock"
proof -
  note q = update_query_owner [OF assms(2,1,3), of tok]
  note u = share_update_owner [OF assms(2,1), of tok]
  have "share P C secret clock protocol host user (file_id F) files =
           (\<lparr>status = 200,
             body = ShareJson ''Archivo compartido exitosamente''
                      (protocol @ ''://'' @ host @ ''/api/shared/'' @ tok)\<rparr>,
            share_update (user_id F) (file_id F) tok files)"
    using assms(5,6) q
    by (simp add: share_def share_reply_def Let_def assms(4) [symmetric] resolved_def share_answer_def
        carried_out_def)
  with u assms(4) show ?thesis
    by (simp add: shareToken_of_def)
qed

theorem share_by_owner_witness:
  "notes_txt \<in> set [notes_txt] \<and> distinct (map file_id [notes_txt])
   \<and> claim_id alice_claims = Some (user_id notes_txt)
   \<and> files_update supabase_returning
         [notes_txt\<lparr>is_shared := True,
                    share_token := Some (shareToken_of (sample_platform []) ''k'' 2 7)\<rparr>] =
       Inr \<lparr>data = Some [notes_txt\<lparr>is_shared := True,
                 share_token := Some (shareToken_of (sample_platform []) ''k'' 2 7)\<rparr>],
            error = None\<rparr>
   \<and> share (sample_platform []) supabase_returning ''k'' 2 ''http'' ''localhost:3000''
         alice_claims 7 [notes_txt] =
       (\<lparr>status = 200,
         body = ShareJson ''Archivo compartido exitosamente''
                  (''http'' @ ''://'' @ ''localhost:3000'' @ ''/api/shared/''
                     @ shareToken_of (sample_platform []) ''k'' 2 7)\<rparr>,
        [notes_txt\<lparr>is_shared := True,
                   share_token := Some (shareToken_of (sample_platform []) ''k'' 2 7)\<rparr>])"
proof -
  have id7: "file_id notes_txt = 7"
    by (simp add: notes_txt_def)
  have h1: "notes_txt \<in> set [notes_txt]"
    by simp
  have h2: "distinct (map file_id [notes_txt])"
    by simp
  have h3: "claim_id alice_claims = Some (user_id notes_txt)"
    by (simp add: alice_claims_def notes_txt_def)
  have h5: "files_update supabase_returning
              [notes_txt\<lparr>is_shared := True,
                 share_token := Some (shareToken_of (sample_platform []) ''k'' 2
                                        (file_id notes_txt))\<rparr>] =
            Inr \<lparr>data = Some [notes_txt\<lparr>is_shared := True,
                      share_token := Some (shareToken_of (sample_platform []) ''k'' 2
                                             (file_id notes_txt))\<rparr>],
                 error = None\<rparr>"
    by (simp add: supabase_returning_def supabase_def)
  have h6: "[notes_txt\<lparr>is_shared := True,
               share_token := Some (shareToken_of (sample_platform []) ''k'' 2
                                      (file_id notes_txt))\<rparr>] \<noteq> []"
    by simp
  note t = share_by_owner [OF h1 h2 h3 refl h5 h6, of "''http''" "''localhost:3000''"]
  from h1 h2 h3 h5 t show ?thesis
    by (simp add: id7)
qed

lemma share_no_data:
  assumes "claim_id user = Some uid"
    and "files_update C (filter (owned_file uid fileId)
           (share_update uid fileId (shareToken_of P secret clock fileId) files)) =
         Inr \<lparr>data = None, error = None\<rparr>"
  shows "share P C secret clock protocol host user fileId files =
         (\<lparr>status = 404, body = ErrorJson ''Archivo no encontrado'' None\<rparr>,
          share_update uid fileId (shareToken_of P secret clock fileId) files)"
  using assms
  by (simp add: share_def share_reply_def Let_def update_query_def resolved_def share_answer_def carried_out_def)

text \<open>
  C7. The update of the handler is not followed by \<^verbatim>\<open>.select()\<close>, as the inserts of
  the registration and of the upload are, so the client returns no data: the update
  sets is_shared and stores the new token on the owner's row, and the owner is answered
  404 "Archivo no encontrado" and receives no URL.
\<close>

theorem share_by_owner_is_answered_404:
  "share (sample_platform []) supabase ''k'' 2 ''http'' ''localhost:3000''
     alice_claims 7 [notes_txt] =
   (\<lparr>status = 404, body = ErrorJson ''Archivo no encontrado'' None\<rparr>,
    [notes_txt\<lparr>is_shared := True,
               share_token := Some (shareToken_of (sample_platform []) ''k'' 2 7)\<rparr>])"
  by (simp add: share_def share_reply_def Let_def update_query_def share_update_def owned_file_def resolved_def
      share_answer_def carried_out_def supabase_def alice_claims_def notes_txt_def)

section \<open>Login\<close>

lemma login_no_error_reply:
  assumes "truthy username = Some u" and "truthy password = Some p"
    and "users_single C (filter (\<lambda>r. u_username r = u) users) = Inr r"
    and "error r = None"
    and "data r = None \<or> (\<exists>d. data r = Some d \<and> \<not> bcrypt_compare P p (u_password d))"
  shows "login P C secret clock users username password =
         \<lparr>status = 401, body = ErrorJson ''Credenciales invalidas'' None\<rparr>"
  using assms by (auto simp: login_def)

lemma login_unknown_user_single:
  assumes "truthy username = Some u" and "truthy password = Some p"
    and "\<forall>r\<in>set users. u_username r \<noteq> u" and "users_single C [] = single []"
  shows "login P C secret clock users username password =
         \<lparr>status = 500,
          body = ErrorJson ''Error interno del servidor''
                   (Some ''JSON object requested, multiple (or no) rows returned'')\<rparr>"
proof -
  from assms(3) have "filter (\<lambda>r. u_username r = u) users = []"
    by (simp add: filter_empty_conv)
  with assms(1,2,4) show ?thesis
    by (simp add: login_def single_def)
qed

text \<open>
  C5. With the client's \<^verbatim>\<open>.single()\<close>, a login with a username that no user has is
  answered 500 with the store's message in \<open>details\<close>, and a login with a wrong password
  is answered 401 "Credenciales invalidas": the two failures are told apart.
\<close>

theorem login_unknown_user_is_distinguished:
  "login (sample_platform []) supabase ''k'' 0 [alice] (Some ''ghost'') (Some ''pw123456'') =
     \<lparr>status = 500,
      body = ErrorJson ''Error interno del servidor''
               (Some ''JSON object requested, multiple (or no) rows returned'')\<rparr>
   \<and> login (sample_platform []) supabase ''k'' 0 [alice] (Some ''alice'') (Some ''wrong'') =
     \<lparr>status = 401, body = ErrorJson ''Credenciales invalidas'' None\<rparr>"
  by (simp add: login_def truthy_def supabase_def single_def sample_platform_def alice_def)

section \<open>Download\<close>

lemma download_unknown_or_foreign_same:
  assumes "\<forall>r\<in>set files. file_id r = fileId \<longrightarrow> claim_id user \<noteq> Some (user_id r)"
  shows "download P C user fileId files = download P C user fileId []"
proof -
  have "download_query user fileId files = download_query user fileId []"
  proof (cases "claim_id user")
    case None
    then show ?thesis by (simp add: download_query_def)
  next
    case (Some uid)
    with assms have "filter (owned_file uid fileId) files = []"
      by (auto simp: owned_file_def filter_empty_conv)
    with Some show ?thesis by (simp add: download_query_def)
  qed
  then show ?thesis
    by (simp add: download_def download_reply_def)
qed

lemma download_by_owner:
  assumes "F \<in> set files" and "distinct (map file_id files)"
    and "claim_id user = Some (user_id F)"
    and "files_single C [F] = Inr \<lparr>data = Some F, error = None\<rparr>"
    and "existsSync P (file_path F)"
  shows "download P C user (file_id F) files =
         \<lparr>status = 200, body = Download (file_path F) (original_name F)\<rparr>"
  using assms(4,5)
  by (simp add: download_def download_reply_def resolved_def download_query_owner [OF assms(2,1,3)])

lemma download_never_forbidden: "status (download P C user fileId files) \<noteq> 403"
  by (simp add: download_def download_reply_def internal_error_def split: sum.splits option.splits)

text \<open>
  C2. With the client's \<^verbatim>\<open>.single()\<close>, the download of a file id that does not exist
  and the download of a file of another owner get the same answer, and that answer is
  500 with the store's message in \<open>details\<close>, not 404; the owner's download succeeds.
\<close>

theorem download_unknown_or_foreign_file:
  "download (sample_platform [''uploads/1/1-notes.txt'']) supabase alice_claims 8 [notes_txt] =
     \<lparr>status = 500,
      body = ErrorJson ''Error al buscar archivo''
               (Some ''JSON object requested, multiple (or no) rows returned'')\<rparr>
   \<and> download (sample_platform [''uploads/1/1-notes.txt'']) supabase bob_claims 7 [notes_txt] =
     \<lparr>status = 500,
      body = ErrorJson ''Error al buscar archivo''
               (Some ''JSON object requested, multiple (or no) rows returned'')\<rparr>
   \<and> download (sample_platform [''uploads/1/1-notes.txt'']) supabase alice_claims 7 [notes_txt] =
     \<lparr>status = 200, body = Download ''uploads/1/1-notes.txt'' ''notes.txt''\<rparr>"
  by (simp add: download_def download_reply_def download_query_def owned_file_def resolved_def supabase_def
      single_def sample_platform_def alice_claims_def bob_claims_def notes_txt_def)

section \<open>The upload filter\<close>

lemma allowedTypes_text_plain: "allowedTypes ''text/plain'' = False"
  by (simp add: allowedTypes_def)
lemma fileFilter_accepts_iff:
  "fileFilter P file = Inr True \<longleftrightarrow>
   allowedTypes (toLowerCase (extname P (originalname file))) \<and> allowedTypes (mimetype file)"
  by (auto simp: fileFilter_def Let_def)

lemma fileFilter_rejects_exe:
  "extname P (originalname file) = ''.exe'' \<Longrightarrow>
   fileFilter P file = Inl ''Tipo de archivo no permitido''"
  by (simp add: fileFilter_def Let_def allowedTypes_def toLowerCase_def lower_char_def)

lemma sample_extname_examples:
  "sample_extname ''virus.exe'' = ''.exe''"
  "sample_extname ''a.tar.gz'' = ''.gz''"
  "sample_extname ''.bashrc'' = []"
  "sample_extname ''README'' = []"
  by (simp_all add: sample_extname_def)

lemma toLowerCase_example: "toLowerCase ''.PNG'' = ''.png''"
  by code_simp

lemma fileFilter_sample_exe:
  "fileFilter (sample_platform [])
     \<lparr>stored_name = ''1-virus.exe'', originalname = ''virus.exe'',
      path = ''uploads/1/1-virus.exe'', size = 2048,
      mimetype = ''application/x-msdownload''\<rparr> =
   Inl ''Tipo de archivo no permitido''"
  by (simp add: fileFilter_def allowedTypes_def toLowerCase_def lower_char_def
      sample_platform_def sample_extname_def)

lemma fileFilter_sample_png:
  "fileFilter (sample_platform [])
     \<lparr>stored_name = ''1-photo.png'', originalname = ''photo.png'',
      path = ''uploads/1/1-photo.png'', size = 2048, mimetype = ''image/png''\<rparr> = Inr True"
  by (simp add: fileFilter_def allowedTypes_def toLowerCase_def lower_char_def
      sample_platform_def sample_extname_def)

text \<open>
  C10. A file named notes.txt that is declared with the media type of text files,
  text/plain, is rejected whatever its extension is taken to be: the expression is
  tested against the media type, and text/plain holds none of its words.
\<close>

theorem fileFilter_rejects_text_plain:
  "fileFilter P \<lparr>stored_name = stored, originalname = ''notes.txt'', path = p, size = n,
                 mimetype = ''text/plain''\<rparr> = Inl ''Tipo de archivo no permitido''"
  by (simp add: fileFilter_def allowedTypes_text_plain)

section \<open>Deleting a file\<close>

text \<open>
  C6. No route of the server answers the DELETE method, whatever the path: a request
  DELETE /api/files/:id is not handled and removes neither the row nor the stored object.
  \<^verbatim>\<open>deleteFile\<close> hands the outcome of \<^verbatim>\<open>destroy\<close> to its caller, a failure included.
\<close>

theorem delete_is_not_routed:
  "route DELETE segs = None \<and> deleteFile destroy publicId = destroy publicId"
  by (simp add: route_def routes_def deleteFile_def split: sum.splits)

section \<open>The sample tokens\<close>

lemma sample_share_token:
  "shareToken_of (sample_platform disk) ''k'' 2 7 = ''k...niiiiiii.iiiiiiiii''"
  by (simp add: shareToken_of_def sample_platform_def sample_sign_def enc_def days_def
      eval_nat_numeral)

lemma sample_share_token_verifies:
  "jwt_verify (sample_platform disk) ''k...niiiiiii.iiiiiiiii'' ''k'' 3 =
   Inr \<lparr>claim_id = None, claim_username = None, claim_fileId = Some 7\<rparr>"
  by (simp add: sample_platform_def sample_verify_def dec_def)

section \<open>Redeeming a share token\<close>

lemma share_update_twice:
  "share_update uid fileId t2 (share_update uid fileId t1 files) =
   share_update uid fileId t2 files"
  by (induction files) (simp_all add: share_update_def owned_file_updated)

lemma rows_with_id_after_share:
  assumes "distinct (map file_id files)" and "F \<in> set files"
    and "file_id G = file_id F"
  shows "filter (\<lambda>r. file_id r = file_id F)
           (map (\<lambda>r. if file_id r = file_id F then G else r) files) = [G]"
proof -
  let ?g = "\<lambda>r. if file_id r = file_id F then G else r"
  have "filter (\<lambda>r. file_id r = file_id F) (map ?g files) =
        map ?g (filter ((\<lambda>r. file_id r = file_id F) \<circ> ?g) files)"
    by (simp only: filter_map)
  also have "(\<lambda>r. file_id r = file_id F) \<circ> ?g = (\<lambda>r. file_id r = file_id F)"
    using assms(3) by (auto simp: fun_eq_iff)
  also have "filter (\<lambda>r. file_id r = file_id F) files = [F]"
    by (rule filter_one [OF assms(1,2)])
  finally show ?thesis by simp
qed

lemma shared_filter_split:
  "filter (\<lambda>r. file_id r = fid \<and> is_shared r \<and> share_token r = Some token) files =
   filter (\<lambda>r. is_shared r \<and> share_token r = Some token)
     (filter (\<lambda>r. file_id r = fid) files)"
  by (simp add: conj_commute conj_left_commute)

lemma shared_query_after_share:
  assumes "distinct (map file_id files)" and "F \<in> set files"
    and "claim_fileId decoded = Some (file_id F)"
  shows "shared_query decoded token (share_update (user_id F) (file_id F) tok files) =
         Inr (if token = tok then [F\<lparr>is_shared := True, share_token := Some tok\<rparr>] else [])"
proof -
  let ?G = "F\<lparr>is_shared := True, share_token := Some tok\<rparr>"
  have "filter (\<lambda>r. file_id r = file_id F)
          (share_update (user_id F) (file_id F) tok files) = [?G]"
    using rows_with_id_after_share [OF assms(1,2), of ?G]
    by (simp add: share_update_owner [OF assms(1,2)])
  then show ?thesis
    by (auto simp: shared_query_def assms(3) shared_filter_split)
qed

lemma shared_success_only_if:
  assumes "status (shared P C secret now token table) = 200"
    and "returns_selected C"
  shows "\<exists>c d. jwt_verify P token secret now = Inr c \<and> d \<in> set table
                \<and> claim_fileId c = Some (file_id d) \<and> is_shared d
                \<and> share_token d = Some token"
proof (cases "jwt_verify P token secret now")
  case (Inl m)
  with assms(1) show ?thesis by (simp add: shared_def shared_reply_def)
next
  case (Inr c)
  show ?thesis
  proof (cases "shared_query c token table")
    case (Inl m)
    with Inr assms(1) show ?thesis by (simp add: shared_def shared_reply_def resolved_def)
  next
    case rows: (Inr selected)
    show ?thesis
    proof (cases "files_single C selected")
      case (Inl m)
      with Inr rows assms(1) show ?thesis by (simp add: shared_def shared_reply_def resolved_def)
    next
      case reply: (Inr r)
      with Inr rows assms(1) obtain d where d: "data r = Some d"
        by (auto simp: shared_def shared_reply_def resolved_def split: option.splits if_splits)
      with reply assms(2) have "d \<in> set selected"
        unfolding returns_selected_def by blast
      with rows have "d \<in> set table \<and> claim_fileId c = Some (file_id d) \<and> is_shared d
                 \<and> share_token d = Some token"
        by (auto simp: shared_query_def split: option.splits)
      with Inr show ?thesis by blast
    qed
  qed
qed

lemma table_after_share:
  assumes "claim_id user = Some uid"
    and "files_update C (filter (owned_file uid fileId)
           (share_update uid fileId (shareToken_of P secret t fileId) files)) = Inr r"
    and "error r = None"
  shows "snd (share P C secret t protocol host user fileId files) =
         share_update uid fileId (shareToken_of P secret t fileId) files"
  using assms
  by (simp add: share_def share_reply_def Let_def update_query_def resolved_def carried_out_def)

lemma table_after_two_shares:
  assumes "F \<in> set files" and "distinct (map file_id files)"
    and "claim_id user = Some (user_id F)"
    and "tok1 = shareToken_of P secret t1 (file_id F)"
    and "tok2 = shareToken_of P secret t2 (file_id F)"
    and "files_update C [F\<lparr>is_shared := True, share_token := Some tok1\<rparr>] = Inr r1"
    and "error r1 = None"
    and "files_update C [F\<lparr>is_shared := True, share_token := Some tok2\<rparr>] = Inr r2"
    and "error r2 = None"
  shows "snd (share P C secret t2 protocol host user (file_id F)
                (snd (share P C secret t1 protocol host user (file_id F) files))) =
         share_update (user_id F) (file_id F) tok2 files"
proof -
  let ?files1 = "share_update (user_id F) (file_id F) tok1 files"
  note q = owned_rows_owner [OF assms(2,1)]
  have "snd (share P C secret t1 protocol host user (file_id F) files) = ?files1"
    unfolding assms(4)
    by (rule table_after_share [where r = r1])
       (simp_all add: changed_rows q assms(3,6,7) assms(4) [symmetric])
  moreover have "snd (share P C secret t2 protocol host user (file_id F) ?files1) =
                 share_update (user_id F) (file_id F) tok2 ?files1"
    unfolding assms(5)
    by (rule table_after_share [where r = r2])
       (simp_all add: changed_rows q assms(3,8,9) assms(5) [symmetric])
  ultimately show ?thesis
    by (simp add: share_update_twice)
qed

lemma shared_with_replaced_token:
  assumes "F \<in> set files" and "distinct (map file_id files)"
    and "returns_selected C"
    and "token \<noteq> tok"
    and "\<forall>c. jwt_verify P token secret now = Inr c \<longrightarrow> claim_fileId c = Some (file_id F)"
  shows "status (shared P C secret now token
                   (share_update (user_id F) (file_id F) tok files)) \<noteq> 200"
proof
  assume "status (shared P C secret now token
                    (share_update (user_id F) (file_id F) tok files)) = 200"
  from shared_success_only_if [OF this assms(3)]
  obtain c d where c: "jwt_verify P token secret now = Inr c"
    and d: "d \<in> set (share_update (user_id F) (file_id F) tok files)"
           "claim_fileId c = Some (file_id d)" "is_shared d" "share_token d = Some token"
    by blast
  from assms(5) c have cf: "claim_fileId c = Some (file_id F)" by blast
  with d have "shared_query c token (share_update (user_id F) (file_id F) tok files) \<noteq> Inr []"
    by (auto simp: shared_query_def filter_empty_conv)
  with shared_query_after_share [OF assms(2,1) cf, of token tok] assms(4) show False
    by simp
qed

lemma shared_with_stored_token:
  assumes "F \<in> set files" and "distinct (map file_id files)"
    and "jwt_verify P tok secret now = Inr c" and "claim_fileId c = Some (file_id F)"
    and "files_single C [F\<lparr>is_shared := True, share_token := Some tok\<rparr>] =
           Inr \<lparr>data = Some (F\<lparr>is_shared := True, share_token := Some tok\<rparr>), error = None\<rparr>"
    and "existsSync P (file_path F)"
  shows "shared P C secret now tok (share_update (user_id F) (file_id F) tok files) =
           \<lparr>status = 200, body = Download (file_path F) (original_name F)\<rparr>"
  using assms(3,5,6) shared_query_after_share [OF assms(2,1,4), of tok tok]
  by (simp add: shared_def shared_reply_def resolved_def)

text \<open>
  C3, as the code has it. After the owner has shared a file twice and the store has
  reported no error on either update, the row of the file stores the second token. If
  the first token differs from the second and decodes, when it verifies, to the id of
  the file, the shared download with the first token does not succeed. The shared
  download with the second token succeeds when the token verifies, the client returns
  the row and the file is on disk. In general, with a client that hands back only rows
  the query has selected, a shared download that succeeds has a token that verifies and
  a row of the table whose id is the decoded fileId, whose is_shared is set and whose
  stored token is the presented one.
\<close>

theorem share_twice_then_redeem:
  assumes "F \<in> set files" and "distinct (map file_id files)"
    and "claim_id user = Some (user_id F)"
    and "returns_selected C"
    and "tok1 = shareToken_of P secret t1 (file_id F)"
    and "tok2 = shareToken_of P secret t2 (file_id F)"
    and "files_update C [F\<lparr>is_shared := True, share_token := Some tok1\<rparr>] = Inr r1"
    and "error r1 = None"
    and "files_update C [F\<lparr>is_shared := True, share_token := Some tok2\<rparr>] = Inr r2"
    and "error r2 = None"
    and "files2 = snd (share P C secret t2 protocol host user (file_id F)
                    (snd (share P C secret t1 protocol host user (file_id F) files)))"
  shows "(tok1 \<noteq> tok2
          \<and> (\<forall>c. jwt_verify P tok1 secret now = Inr c \<longrightarrow> claim_fileId c = Some (file_id F))
          \<longrightarrow> status (shared P C secret now tok1 files2) \<noteq> 200)
       \<and> (jwt_verify P tok2 secret now = Inr c2 \<and> claim_fileId c2 = Some (file_id F)
          \<and> files_single C [F\<lparr>is_shared := True, share_token := Some tok2\<rparr>] =
              Inr \<lparr>data = Some (F\<lparr>is_shared := True, share_token := Some tok2\<rparr>), error = None\<rparr>
          \<and> existsSync P (file_path F)
          \<longrightarrow> shared P C secret now tok2 files2 =
              \<lparr>status = 200, body = Download (file_path F) (original_name F)\<rparr>)
       \<and> (status (shared P C secret now token table) = 200
          \<longrightarrow> (\<exists>c d. jwt_verify P token secret now = Inr c \<and> d \<in> set table
                     \<and> claim_fileId c = Some (file_id d) \<and> is_shared d
                     \<and> share_token d = Some token))"
proof -
  have f2: "files2 = share_update (user_id F) (file_id F) tok2 files"
    unfolding assms(11) by (rule table_after_two_shares [OF assms(1-3,5-10)])
  show ?thesis
    unfolding f2
    using shared_with_replaced_token [OF assms(1,2,4), of tok1 tok2 P secret now]
      shared_with_stored_token [OF assms(1,2), of P tok2 secret now c2 C]
      shared_success_only_if [of P C secret now token table, OF _ assms(4)]
    by blast
qed

lemma sample_share_token_3:
  "shareToken_of (sample_platform disk) ''k'' 3 7 = ''k...niiiiiii.iiiiiiiiii''"
  by (simp add: shareToken_of_def sample_platform_def sample_sign_def enc_def days_def
      eval_nat_numeral)

lemma sample_share_token_verifies_4:
  "jwt_verify (sample_platform disk) ''k...niiiiiii.iiiiiiiii'' ''k'' 4 =
     Inr \<lparr>claim_id = None, claim_username = None, claim_fileId = Some 7\<rparr>"
  "jwt_verify (sample_platform disk) ''k...niiiiiii.iiiiiiiiii'' ''k'' 4 =
     Inr \<lparr>claim_id = None, claim_username = None, claim_fileId = Some 7\<rparr>"
  by (simp_all add: sample_platform_def sample_verify_def dec_def)

lemma single_returns_selected: "returns_selected supabase"
  by (auto simp: returns_selected_def supabase_def single_def split: list.splits)

lemma single_returns_selected_returning: "returns_selected supabase_returning"
  by (auto simp: returns_selected_def supabase_returning_def supabase_def single_def
      split: list.splits)

lemma notes_txt_fields:
  "file_id notes_txt = 7" "user_id notes_txt = 1"
  "file_path notes_txt = ''uploads/1/1-notes.txt''" "original_name notes_txt = ''notes.txt''"
  by (simp_all add: notes_txt_def)

theorem share_twice_then_redeem_witness:
  "notes_txt \<in> set [notes_txt] \<and> distinct (map file_id [notes_txt])
   \<and> claim_id alice_claims = Some (user_id notes_txt)
   \<and> returns_selected supabase_returning
   \<and> shareToken_of (sample_platform [''uploads/1/1-notes.txt'']) ''k'' 2 7 \<noteq>
       shareToken_of (sample_platform [''uploads/1/1-notes.txt'']) ''k'' 3 7
   \<and> status (shared (sample_platform [''uploads/1/1-notes.txt'']) supabase_returning ''k'' 4
         (shareToken_of (sample_platform [''uploads/1/1-notes.txt'']) ''k'' 2 7)
         (snd (share (sample_platform [''uploads/1/1-notes.txt'']) supabase_returning ''k'' 3
                ''http'' ''localhost:3000'' alice_claims 7
                (snd (share (sample_platform [''uploads/1/1-notes.txt'']) supabase_returning ''k'' 2
                       ''http'' ''localhost:3000'' alice_claims 7 [notes_txt]))))) \<noteq> 200
   \<and> shared (sample_platform [''uploads/1/1-notes.txt'']) supabase_returning ''k'' 4
         (shareToken_of (sample_platform [''uploads/1/1-notes.txt'']) ''k'' 3 7)
         (snd (share (sample_platform [''uploads/1/1-notes.txt'']) supabase_returning ''k'' 3
                ''http'' ''localhost:3000'' alice_claims 7
                (snd (share (sample_platform [''uploads/1/1-notes.txt'']) supabase_returning ''k'' 2
                       ''http'' ''localhost:3000'' alice_claims 7 [notes_txt])))) =
       \<lparr>status = 200, body = Download ''uploads/1/1-notes.txt'' ''notes.txt''\<rparr>"
proof -
  let ?P = "sample_platform [''uploads/1/1-notes.txt'']"
  let ?C = "supabase_returning"
  have h1: "notes_txt \<in> set [notes_txt]"
    by simp
  have h2: "distinct (map file_id [notes_txt])"
    by simp
  have h3: "claim_id alice_claims = Some (user_id notes_txt)"
    by (simp add: alice_claims_def notes_txt_def)
  note h4 = single_returns_selected_returning
  have u1: "files_update ?C
              [notes_txt\<lparr>is_shared := True,
                 share_token := Some (shareToken_of ?P ''k'' 2 (file_id notes_txt))\<rparr>] =
            Inr \<lparr>data = Some [notes_txt\<lparr>is_shared := True,
                      share_token := Some (shareToken_of ?P ''k'' 2 (file_id notes_txt))\<rparr>],
                 error = None\<rparr>"
    by (simp add: supabase_returning_def supabase_def)
  have u2: "files_update ?C
              [notes_txt\<lparr>is_shared := True,
                 share_token := Some (shareToken_of ?P ''k'' 3 (file_id notes_txt))\<rparr>] =
            Inr \<lparr>data = Some [notes_txt\<lparr>is_shared := True,
                      share_token := Some (shareToken_of ?P ''k'' 3 (file_id notes_txt))\<rparr>],
                 error = None\<rparr>"
    by (simp add: supabase_returning_def supabase_def)
  have e0: "\<And>x :: file_row list option. error \<lparr>data = x, error = None\<rparr> = None"
    by simp
  note t = share_twice_then_redeem [where P = ?P and secret = "''k''" and ?t1.0 = 2
      and ?t2.0 = 3 and protocol = "''http''" and host = "''localhost:3000''" and now = 4
      and ?c2.0 = "\<lparr>claim_id = None, claim_username = None, claim_fileId = Some 7\<rparr>",
      OF h1 h2 h3 h4 refl refl u1 e0 u2 e0 refl,
      unfolded notes_txt_fields sample_share_token sample_share_token_3]
  have d: "''k...niiiiiii.iiiiiiiii'' \<noteq> ''k...niiiiiii.iiiiiiiiii''"
    by simp
  have v1: "\<forall>c. jwt_verify ?P ''k...niiiiiii.iiiiiiiii'' ''k'' 4 = Inr c \<longrightarrow>
                claim_fileId c = Some 7"
    by (simp add: sample_share_token_verifies_4)
  have s: "files_single ?C
             [notes_txt\<lparr>is_shared := True, share_token := Some ''k...niiiiiii.iiiiiiiiii''\<rparr>] =
           Inr \<lparr>data = Some (notes_txt\<lparr>is_shared := True,
                                share_token := Some ''k...niiiiiii.iiiiiiiiii''\<rparr>),
                error = None\<rparr>"
    by (simp add: supabase_returning_def supabase_def single_def)
  have e: "existsSync ?P ''uploads/1/1-notes.txt''"
    by (simp add: sample_platform_def)
  from t d v1 sample_share_token_verifies_4(2) [of "[''uploads/1/1-notes.txt'']"] s e
  have "status (shared ?P ?C ''k'' 4 ''k...niiiiiii.iiiiiiiii''
          (snd (share ?P ?C ''k'' 3 ''http'' ''localhost:3000'' alice_claims 7
                 (snd (share ?P ?C ''k'' 2 ''http'' ''localhost:3000'' alice_claims 7
                        [notes_txt]))))) \<noteq> 200"
    and "shared ?P ?C ''k'' 4 ''k...niiiiiii.iiiiiiiiii''
          (snd (share ?P ?C ''k'' 3 ''http'' ''localhost:3000'' alice_claims 7
                 (snd (share ?P ?C ''k'' 2 ''http'' ''localhost:3000'' alice_claims 7
                        [notes_txt])))) =
         \<lparr>status = 200, body = Download ''uploads/1/1-notes.txt'' ''notes.txt''\<rparr>"
    by simp_all
  with h1 h2 h3 h4 d show ?thesis
    by (simp add: sample_share_token sample_share_token_3)
qed

text \<open>
  The claim as it is written fails: \<^verbatim>\<open>jwt.sign\<close> is a function of the payload, the
  secret and the clock, which counts whole seconds, so two Share calls within one second
  sign the same token. The first token is then the stored one, and it redeems after the
  second call.
\<close>

theorem first_token_redeems_after_second_share:
  "fst (share (sample_platform [''uploads/1/1-notes.txt'']) supabase_returning ''k'' 2
          ''http'' ''localhost:3000'' alice_claims 7 [notes_txt]) =
     \<lparr>status = 200,
      body = ShareJson ''Archivo compartido exitosamente''
               ''http://localhost:3000/api/shared/k...niiiiiii.iiiiiiiii''\<rparr>
   \<and> fst (share (sample_platform [''uploads/1/1-notes.txt'']) supabase_returning ''k'' 2
          ''http'' ''localhost:3000'' alice_claims 7
          (snd (share (sample_platform [''uploads/1/1-notes.txt'']) supabase_returning ''k'' 2
                 ''http'' ''localhost:3000'' alice_claims 7 [notes_txt]))) =
     \<lparr>status = 200,
      body = ShareJson ''Archivo compartido exitosamente''
               ''http://localhost:3000/api/shared/k...niiiiiii.iiiiiiiii''\<rparr>
   \<and> shared (sample_platform [''uploads/1/1-notes.txt'']) supabase_returning ''k'' 3
       ''k...niiiiiii.iiiiiiiii''
       (snd (share (sample_platform [''uploads/1/1-notes.txt'']) supabase_returning ''k'' 2
              ''http'' ''localhost:3000'' alice_claims 7
              (snd (share (sample_platform [''uploads/1/1-notes.txt'']) supabase_returning ''k'' 2
                     ''http'' ''localhost:3000'' alice_claims 7 [notes_txt])))) =
     \<lparr>status = 200, body = Download ''uploads/1/1-notes.txt'' ''notes.txt''\<rparr>"
proof -
  let ?P = "sample_platform [''uploads/1/1-notes.txt'']"
  have h1: "notes_txt \<in> set [notes_txt]"
    by simp
  have h2: "distinct (map file_id [notes_txt])"
    by simp
  have h3: "claim_id alice_claims = Some (user_id notes_txt)"
    by (simp add: alice_claims_def notes_txt_def)
  have s: "files_single supabase_returning
             [notes_txt\<lparr>is_shared := True, share_token := Some ''k...niiiiiii.iiiiiiiii''\<rparr>] =
           Inr \<lparr>data = Some (notes_txt\<lparr>is_shared := True,
                                share_token := Some ''k...niiiiiii.iiiiiiiii''\<rparr>),
                error = None\<rparr>"
    by (simp add: supabase_returning_def supabase_def single_def)
  have e: "existsSync ?P (file_path notes_txt)"
    by (simp add: sample_platform_def notes_txt_def)
  have c: "claim_fileId \<lparr>claim_id = None, claim_username = None, claim_fileId = Some 7\<rparr> =
           Some (file_id notes_txt)"
    by (simp add: notes_txt_def)
  have u: "files_update supabase_returning
             [notes_txt\<lparr>is_shared := True,
                share_token := Some (shareToken_of ?P ''k'' 2 (file_id notes_txt))\<rparr>] =
           Inr \<lparr>data = Some [notes_txt\<lparr>is_shared := True,
                     share_token := Some (shareToken_of ?P ''k'' 2 (file_id notes_txt))\<rparr>],
                error = None\<rparr>"
    by (simp add: supabase_returning_def supabase_def)
  have e0: "\<And>x :: file_row list option. error \<lparr>data = x, error = None\<rparr> = None"
    by simp
  note tab = table_after_two_shares [where P = ?P and secret = "''k''" and ?t1.0 = 2
      and ?t2.0 = 2 and protocol = "''http''" and host = "''localhost:3000''",
      OF h1 h2 h3 refl refl u e0 u e0, unfolded notes_txt_fields sample_share_token]
  have first: "fst (share ?P supabase_returning ''k'' 2 ''http'' ''localhost:3000''
                     alice_claims 7 [notes_txt]) =
               \<lparr>status = 200,
                body = ShareJson ''Archivo compartido exitosamente''
                         ''http://localhost:3000/api/shared/k...niiiiiii.iiiiiiiii''\<rparr>"
    by (simp add: share_def share_reply_def Let_def update_query_def share_update_def owned_file_def
        resolved_def share_answer_def carried_out_def supabase_returning_def supabase_def
        alice_claims_def notes_txt_def sample_share_token)
  have "snd (share ?P supabase_returning ''k'' 2 ''http'' ''localhost:3000''
               alice_claims 7 [notes_txt]) =
        [notes_txt\<lparr>is_shared := True, share_token := Some ''k...niiiiiii.iiiiiiiii''\<rparr>]"
    by (simp add: share_def share_reply_def Let_def update_query_def share_update_def owned_file_def
        resolved_def share_answer_def carried_out_def supabase_returning_def supabase_def
        alice_claims_def notes_txt_def sample_share_token)
  then have second: "fst (share ?P supabase_returning ''k'' 2 ''http'' ''localhost:3000''
                      alice_claims 7
                      (snd (share ?P supabase_returning ''k'' 2 ''http'' ''localhost:3000''
                             alice_claims 7 [notes_txt]))) =
               \<lparr>status = 200,
                body = ShareJson ''Archivo compartido exitosamente''
                         ''http://localhost:3000/api/shared/k...niiiiiii.iiiiiiiii''\<rparr>"
    by (simp add: share_def share_reply_def Let_def update_query_def share_update_def owned_file_def
        resolved_def share_answer_def carried_out_def supabase_returning_def supabase_def
        alice_claims_def notes_txt_def sample_share_token)
  from shared_with_stored_token [OF h1 h2 sample_share_token_verifies [of "[''uploads/1/1-notes.txt'']"] c s e]
  have "shared ?P supabase_returning ''k'' 3 ''k...niiiiiii.iiiiiiiii''
          (snd (share ?P supabase_returning ''k'' 2 ''http'' ''localhost:3000'' alice_claims 7
                 (snd (share ?P supabase_returning ''k'' 2 ''http'' ''localhost:3000''
                        alice_claims 7 [notes_txt])))) =
        \<lparr>status = 200, body = Download ''uploads/1/1-notes.txt'' ''notes.txt''\<rparr>"
    by (simp add: tab sample_share_token notes_txt_fields)
  with first second show ?thesis
    by simp
qed

section \<open>Token kinds\<close>

lemma split_no_separator: "c \<notin> set s \<Longrightarrow> split c s = [s]"
  by (induction s) auto

lemma bearer_token:
  assumes "CHR '' '' \<notin> set token"
  shows "bearer (Some (''Bearer '' @ token)) = Some token"
  using assms by (simp add: bearer_def at_index_def split_no_separator)

lemma authenticateToken_accepts:
  assumes "CHR '' '' \<notin> set token" and "jwt_verify P token secret clock = Inr payload"
  shows "authenticateToken P secret clock (Some (''Bearer '' @ token)) = Next payload"
proof -
  from assms(1) have b: "bearer (Some (''Bearer '' @ token)) = Some token"
    by (rule bearer_token)
  show ?thesis
    unfolding authenticateToken_def b using assms(2) by simp
qed

lemma list_files_undefined_id:
  "claim_id user = None \<Longrightarrow>
   list_files C user files =
     \<lparr>status = 500, body = ErrorJson ''Error al obtener archivos'' (Some type_error)\<rparr>"
  by (simp add: list_files_def list_reply_def list_query_def resolved_def)

lemma download_undefined_id:
  "claim_id user = None \<Longrightarrow>
   download P C user fileId files =
     \<lparr>status = 500, body = ErrorJson ''Error al buscar archivo'' (Some type_error)\<rparr>"
  by (simp add: download_def download_reply_def download_query_def resolved_def)

lemma share_undefined_id:
  "claim_id user = None \<Longrightarrow>
   share P C secret clock protocol host user fileId files =
     (\<lparr>status = 500, body = ErrorJson ''Error al compartir archivo'' (Some type_error)\<rparr>,
      files)"
  by (simp add: share_def share_reply_def Let_def update_query_def resolved_def share_answer_def)

lemma shared_undefined_fileId:
  assumes "jwt_verify P token secret clock = Inr decoded" and "claim_fileId decoded = None"
  shows "shared P C secret clock token files =
           \<lparr>status = 500,
            body = ErrorJson ''Error al obtener archivo compartido'' (Some type_error)\<rparr>"
  using assms by (simp add: shared_def shared_reply_def shared_query_def resolved_def)

lemma access_token_never_redeems:
  assumes "\<forall>c. jwt_verify P token secret clock = Inr c \<longrightarrow> claim_fileId c = None"
  shows "status (shared P C secret clock token files) = 500"
proof (cases "jwt_verify P token secret clock")
  case (Inl m)
  then show ?thesis by (simp add: shared_def)
next
  case (Inr c)
  with assms have "claim_fileId c = None" by blast
  with Inr show ?thesis by (simp add: shared_undefined_fileId)
qed

text \<open>
  C4, as the code has it. One kind of token does not work in place of the other, but
  no check of the shape of the claims is what stops it. A token that verifies to the
  claims of a share token passes \<^verbatim>\<open>authenticateToken\<close>, which sets \<^verbatim>\<open>req.user\<close> to
  these claims. The user id is then undefined: the store rejects the queries of List,
  Download and Share, each is answered 500 with its own text and the type error of the
  store in \<open>details\<close>, Share changes no row, and the destination of an upload throws.
  A token that verifies to the claims of an access token passes the verification of the
  shared download. The fileId is then undefined: the store rejects the query and the
  answer is 500 "Error al obtener archivo compartido" with the type error in
  \<open>details\<close>. A token whose claims have no fileId whenever it verifies never redeems.
\<close>

theorem token_kinds_not_checked:
  "(CHR '' '' \<notin> set token \<and> jwt_verify P token secret clock = Inr (share_claims fid) \<longrightarrow>
      authenticateToken P secret clock (Some (''Bearer '' @ token)) = Next (share_claims fid)
      \<and> list_files C (share_claims fid) files =
          \<lparr>status = 500, body = ErrorJson ''Error al obtener archivos'' (Some type_error)\<rparr>
      \<and> download P C (share_claims fid) fileId files =
          \<lparr>status = 500, body = ErrorJson ''Error al buscar archivo'' (Some type_error)\<rparr>
      \<and> share P C secret clock protocol host (share_claims fid) fileId files =
          (\<lparr>status = 500, body = ErrorJson ''Error al compartir archivo'' (Some type_error)\<rparr>,
           files)
      \<and> destination (share_claims fid) =
          Inl ''Cannot read properties of undefined (reading toString)'')
   \<and> (jwt_verify P token secret clock = Inr (access_claims uid name) \<longrightarrow>
        shared P C secret clock token files =
          \<lparr>status = 500,
           body = ErrorJson ''Error al obtener archivo compartido'' (Some type_error)\<rparr>)
   \<and> ((\<forall>c. jwt_verify P token secret clock = Inr c \<longrightarrow> claim_fileId c = None) \<longrightarrow>
        status (shared P C secret clock token files) = 500)"
proof (intro conjI impI)
  assume a: "CHR '' '' \<notin> set token \<and> jwt_verify P token secret clock = Inr (share_claims fid)"
  have u: "claim_id (share_claims fid) = None"
    by (simp add: share_claims_def)
  from a show "authenticateToken P secret clock (Some (''Bearer '' @ token)) =
               Next (share_claims fid)"
    by (intro authenticateToken_accepts) simp_all
  from u show "list_files C (share_claims fid) files =
          \<lparr>status = 500, body = ErrorJson ''Error al obtener archivos'' (Some type_error)\<rparr>"
    by (rule list_files_undefined_id)
  from u show "download P C (share_claims fid) fileId files =
          \<lparr>status = 500, body = ErrorJson ''Error al buscar archivo'' (Some type_error)\<rparr>"
    by (rule download_undefined_id)
  from u show "share P C secret clock protocol host (share_claims fid) fileId files =
          (\<lparr>status = 500, body = ErrorJson ''Error al compartir archivo'' (Some type_error)\<rparr>,
           files)"
    by (rule share_undefined_id)
  from u show "destination (share_claims fid) =
          Inl ''Cannot read properties of undefined (reading toString)''"
    by (simp add: destination_def del: list.inject)
next
  assume "jwt_verify P token secret clock = Inr (access_claims uid name)"
  then show "shared P C secret clock token files =
          \<lparr>status = 500,
           body = ErrorJson ''Error al obtener archivo compartido'' (Some type_error)\<rparr>"
    by (rule shared_undefined_fileId) (simp add: access_claims_def)
next
  assume "\<forall>c. jwt_verify P token secret clock = Inr c \<longrightarrow> claim_fileId c = None"
  then show "status (shared P C secret clock token files) = 500"
    by (rule access_token_never_redeems)
qed

text \<open>
  The claim as it is written fails: a share token presented as an access token is not
  turned away by a check of its claims. The middleware lets the request go on with the
  claims of the share token, the handler sends its query, and the answer is the type
  error of the store.
\<close>

theorem share_token_passes_authenticateToken:
  "authenticateToken (sample_platform []) ''k'' 3
     (Some (''Bearer '' @ shareToken_of (sample_platform []) ''k'' 2 7)) =
   Next \<lparr>claim_id = None, claim_username = None, claim_fileId = Some 7\<rparr>
   \<and> list_files supabase \<lparr>claim_id = None, claim_username = None, claim_fileId = Some 7\<rparr>
       [notes_txt] =
     \<lparr>status = 500, body = ErrorJson ''Error al obtener archivos'' (Some type_error)\<rparr>"
  by (simp add: sample_share_token authenticateToken_def bearer_def at_index_def
      sample_share_token_verifies list_files_undefined_id)

lemma sample_access_token_verifies:
  "jwt_verify (sample_platform disk) ''k.ni.alice..i'' ''k'' 0 = Inr alice_claims"
  by (simp add: sample_platform_def sample_verify_def dec_def alice_claims_def)

theorem token_kinds_not_checked_witness:
  "CHR '' '' \<notin> set ''k...niiiiiii.iiiiiiiii''
   \<and> jwt_verify (sample_platform []) ''k...niiiiiii.iiiiiiiii'' ''k'' 3 = Inr (share_claims 7)
   \<and> authenticateToken (sample_platform []) ''k'' 3
       (Some (''Bearer '' @ ''k...niiiiiii.iiiiiiiii'')) = Next (share_claims 7)
   \<and> list_files supabase (share_claims 7) [notes_txt] =
       \<lparr>status = 500, body = ErrorJson ''Error al obtener archivos'' (Some type_error)\<rparr>
   \<and> download (sample_platform []) supabase (share_claims 7) 7 [notes_txt] =
       \<lparr>status = 500, body = ErrorJson ''Error al buscar archivo'' (Some type_error)\<rparr>
   \<and> share (sample_platform []) supabase ''k'' 3 ''http'' ''localhost:3000''
       (share_claims 7) 7 [notes_txt] =
       (\<lparr>status = 500, body = ErrorJson ''Error al compartir archivo'' (Some type_error)\<rparr>,
        [notes_txt])
   \<and> destination (share_claims 7) =
       Inl ''Cannot read properties of undefined (reading toString)''
   \<and> jwt_verify (sample_platform []) ''k.ni.alice..i'' ''k'' 0 = Inr (access_claims 1 ''alice'')
   \<and> shared (sample_platform []) supabase ''k'' 0 ''k.ni.alice..i'' [notes_txt] =
       \<lparr>status = 500,
        body = ErrorJson ''Error al obtener archivo compartido'' (Some type_error)\<rparr>
   \<and> status (shared (sample_platform []) supabase ''k'' 0 ''k.ni.alice..i'' [notes_txt]) = 500"
proof -
  have h1: "CHR '' '' \<notin> set ''k...niiiiiii.iiiiiiiii''"
    by simp
  have h2: "jwt_verify (sample_platform []) ''k...niiiiiii.iiiiiiiii'' ''k'' 3 =
            Inr (share_claims 7)"
    by (simp add: sample_share_token_verifies share_claims_def)
  have h3: "jwt_verify (sample_platform []) ''k.ni.alice..i'' ''k'' 0 =
            Inr (access_claims 1 ''alice'')"
    by (simp add: sample_access_token_verifies alice_claims_def access_claims_def)
  have h4: "\<forall>c. jwt_verify (sample_platform []) ''k.ni.alice..i'' ''k'' 0 = Inr c \<longrightarrow>
                claim_fileId c = None"
    by (simp add: h3 access_claims_def)
  note a = token_kinds_not_checked [where token = "''k...niiiiiii.iiiiiiiii''"
      and P = "sample_platform []" and secret = "''k''" and clock = 3 and fid = 7
      and C = supabase and files = "[notes_txt]" and fileId = 7 and protocol = "''http''"
      and host = "''localhost:3000''"]
  note b = token_kinds_not_checked [where token = "''k.ni.alice..i''"
      and P = "sample_platform []" and secret = "''k''" and clock = 0 and uid = 1
      and name = "''alice''" and C = supabase and files = "[notes_txt]"]
  from a h1 h2
  have c1: "authenticateToken (sample_platform []) ''k'' 3
              (Some (''Bearer '' @ ''k...niiiiiii.iiiiiiiii'')) = Next (share_claims 7)"
    and c2: "list_files supabase (share_claims 7) [notes_txt] =
       \<lparr>status = 500, body = ErrorJson ''Error al obtener archivos'' (Some type_error)\<rparr>"
    and c3: "download (sample_platform []) supabase (share_claims 7) 7 [notes_txt] =
       \<lparr>status = 500, body = ErrorJson ''Error al buscar archivo'' (Some type_error)\<rparr>"
    and c4: "share (sample_platform []) supabase ''k'' 3 ''http'' ''localhost:3000''
       (share_claims 7) 7 [notes_txt] =
       (\<lparr>status = 500, body = ErrorJson ''Error al compartir archivo'' (Some type_error)\<rparr>,
        [notes_txt])"
    and c5: "destination (share_claims 7) =
       Inl ''Cannot read properties of undefined (reading toString)''"
    by blast+
  from b h3 h4
  have c6: "shared (sample_platform []) supabase ''k'' 0 ''k.ni.alice..i'' [notes_txt] =
       \<lparr>status = 500,
        body = ErrorJson ''Error al obtener archivo compartido'' (Some type_error)\<rparr>"
    and c7: "status (shared (sample_platform []) supabase ''k'' 0 ''k.ni.alice..i''
                       [notes_txt]) = 500"
    by blast+
  from h1 h2 h3 c1 c2 c3 c4 c5 c6 c7 show ?thesis
    by (intro conjI)
qed

section \<open>Access token failures\<close>

text \<open>
  C8, as the middleware has it. A request that carries no token is answered 401
  "Token de acceso requerido". A request whose token fails verification is answered 403
  "Token invalido", the same answer whatever the reason of the failure (malformed,
  expired, wrong signature).
\<close>

theorem authenticateToken_failures:
  "(bearer authHeader = None \<longrightarrow>
      authenticateToken P secret clock authHeader =
        Respond \<lparr>status = 401, body = ErrorJson ''Token de acceso requerido'' None\<rparr>)
   \<and> (\<forall>token reason.
        bearer authHeader = Some token \<and> jwt_verify P token secret clock = Inl reason \<longrightarrow>
        authenticateToken P secret clock authHeader =
          Respond \<lparr>status = 403, body = ErrorJson ''Token invalido'' None\<rparr>)"
  by (simp add: authenticateToken_def)

theorem authenticateToken_failures_witness:
  "bearer None = None
   \<and> authenticateToken (sample_platform []) ''k'' 3 None =
       Respond \<lparr>status = 401, body = ErrorJson ''Token de acceso requerido'' None\<rparr>
   \<and> bearer (Some ''Bearer abc'') = Some ''abc''
   \<and> jwt_verify (sample_platform []) ''abc'' ''k'' 3 = Inl ''jwt malformed''
   \<and> authenticateToken (sample_platform []) ''k'' 3 (Some ''Bearer abc'') =
       Respond \<lparr>status = 403, body = ErrorJson ''Token invalido'' None\<rparr>"
proof -
  have h1: "bearer None = None"
    by (simp add: bearer_def)
  have h2: "bearer (Some ''Bearer abc'') = Some ''abc''"
    by (simp add: bearer_def at_index_def)
  have h3: "jwt_verify (sample_platform []) ''abc'' ''k'' 3 = Inl ''jwt malformed''"
    by (simp add: sample_platform_def sample_verify_def)
  from authenticateToken_failures [of None "sample_platform []" "''k''" 3] h1
  have a: "authenticateToken (sample_platform []) ''k'' 3 None =
             Respond \<lparr>status = 401, body = ErrorJson ''Token de acceso requerido'' None\<rparr>"
    by simp
  from authenticateToken_failures [of "Some ''Bearer abc''" "sample_platform []" "''k''" 3] h2 h3
  have b: "authenticateToken (sample_platform []) ''k'' 3 (Some ''Bearer abc'') =
             Respond \<lparr>status = 403, body = ErrorJson ''Token invalido'' None\<rparr>"
    by simp
  from h1 h2 h3 a b show ?thesis by simp
qed

text \<open>
  The claim as it is written fails: a request with no Authorization header and a request
  with a malformed token get different answers.
\<close>

theorem authenticateToken_missing_vs_malformed:
  "authenticateToken (sample_platform []) ''k'' 3 None \<noteq>
   authenticateToken (sample_platform []) ''k'' 3 (Some ''Bearer abc'')"
  by (simp add: authenticateToken_def bearer_def at_index_def sample_platform_def
      sample_verify_def)

section \<open>Errors of the store\<close>







lemma share_store_error_table:
  assumes "share_reply C user fileId (shareToken_of P secret clock fileId) files = Inr r"
    and "error r = Some m"
  shows "snd (share P C secret clock protocol host user fileId files) = files"
  using assms
  by (simp add: share_def Let_def carried_out_def split: sum.splits prod.splits)


lemma store_exceptions:
  "users_single C (filter (\<lambda>x. u_username x = u) users) = Inl t \<Longrightarrow>
     truthy username = Some u \<Longrightarrow> truthy password = Some p \<Longrightarrow>
     login P C secret clock users username password = internal_error"
  "download_reply C user fileId files = Inl t \<Longrightarrow>
     download P C user fileId files = internal_error"
  "jwt_verify P token secret clock = Inr decoded \<Longrightarrow>
     shared_reply C decoded token files = Inl t \<Longrightarrow>
     shared P C secret clock token files =
       \<lparr>status = 500, body = ErrorJson ''Token invalido o error interno'' (Some t)\<rparr>"
  by (simp_all add: login_def download_def shared_def)




end
